theory Spec2Isabelle
  imports Complex_Main
begin

section \<open>Values, errors and effects\<close>

text \<open>
  The program is one Python file, \<^verbatim>\<open>entrypoint.py\<close>. Exceptions are values of type
  \<open>error\<close>; a function that may raise returns \<open>error + 'a\<close> with \<open>Inl\<close> for the raise.
  \<open>LibraryError\<close> stands for whatever an external library raises (a file that cannot be
  decoded, an API error of the generation client, a network error of the HTTP client).
\<close>

datatype error = ValueError string | TypeError string | LibraryError string

text \<open>
  Python is dynamically typed: the value that \<^verbatim>\<open>main\<close> hands to the publisher as
  \<^verbatim>\<open>body\<close> is whatever \<^verbatim>\<open>generate_content\<close> returned. \<open>PyStr\<close> is a plain
  \<^verbatim>\<open>str\<close>; \<open>GenerateContentResponse t\<close> is the client's response object whose
  \<^verbatim>\<open>.text\<close> attribute is \<open>t\<close>.
\<close>

datatype py_value = PyNone | PyStr string | GenerateContentResponse string

text \<open>The text form of a review result, as the specification's data model names it.\<close>

fun text_of :: "py_value \<Rightarrow> string" where
  "text_of PyNone = ''None''"
| "text_of (PyStr s) = s"
| "text_of (GenerateContentResponse t) = t"

text \<open>\<^verbatim>\<open>os.getenv\<close> returns \<^verbatim>\<open>None\<close> or a \<^verbatim>\<open>str\<close>; an f-string renders \<^verbatim>\<open>None\<close> as the text None.\<close>

definition format_opt :: "string option \<Rightarrow> string" where
  "format_opt v = (case v of None \<Rightarrow> ''None'' | Some s \<Rightarrow> s)"

definition py_of_opt :: "string option \<Rightarrow> py_value" where
  "py_of_opt v = (case v of None \<Rightarrow> PyNone | Some s \<Rightarrow> PyStr s)"

text \<open>\<^verbatim>\<open>str(n)\<close> of an \<^verbatim>\<open>int\<close>, as the f-string of the URL formats the pull request number.\<close>

definition digit_char :: "nat \<Rightarrow> char" where
  "digit_char d = char_of (48 + d)"

fun str_nat :: "nat \<Rightarrow> string" where
  "str_nat n = (if n < 10 then [digit_char n] else str_nat (n div 10) @ [digit_char (n mod 10)])"

declare str_nat.simps [simp del]

definition str_int :: "int \<Rightarrow> string" where
  "str_int n = (if n < 0 then CHR ''-'' # str_nat (nat (- n)) else str_nat (nat n))"

text \<open>\<^verbatim>\<open>sep.join(xs)\<close> and \<^verbatim>\<open>s.endswith(suffixes)\<close> with a tuple of suffixes.\<close>

fun str_join :: "string \<Rightarrow> string list \<Rightarrow> string" where
  "str_join sep [] = []"
| "str_join sep [x] = x"
| "str_join sep (x # y # ys) = x @ sep @ str_join sep (y # ys)"

definition endswith :: "string \<Rightarrow> string \<Rightarrow> bool" where
  "endswith s suf = (length suf \<le> length s \<and> drop (length s - length suf) s = suf)"

definition endswith_any :: "string \<Rightarrow> string list \<Rightarrow> bool" where
  "endswith_any s sufs = list_ex (endswith s) sufs"

text \<open>
  \<^verbatim>\<open>os.path.join(a, b)\<close> on POSIX for two components: an absolute \<open>b\<close> replaces \<open>a\<close>,
  otherwise the two are joined by one slash unless \<open>a\<close> is empty or already ends in one.
\<close>

definition os_path_join :: "string \<Rightarrow> string \<Rightarrow> string" where
  "os_path_join a b =
     (if b \<noteq> [] \<and> hd b = CHR ''/'' then b
      else if a = [] \<or> last a = CHR ''/'' then a @ b
      else a @ ''/'' @ b)"

subsection \<open>The generation request\<close>

datatype harm_category =
    HARM_CATEGORY_UNSPECIFIED
  | HARM_CATEGORY_HARASSMENT
  | HARM_CATEGORY_HATE_SPEECH
  | HARM_CATEGORY_SEXUALLY_EXPLICIT
  | HARM_CATEGORY_DANGEROUS_CONTENT

datatype harm_block_threshold =
    HARM_BLOCK_THRESHOLD_UNSPECIFIED
  | BLOCK_LOW_AND_ABOVE
  | BLOCK_MEDIUM_AND_ABOVE
  | BLOCK_ONLY_HIGH
  | BLOCK_NONE

text \<open>
  The \<^verbatim>\<open>generation_config\<close> dictionary has four fixed keys; the two floats are only
  passed through, never computed with.
\<close>

record generation_config =
  gc_temperature :: real
  gc_top_p :: real
  gc_top_k :: int
  gc_max_output_tokens :: int

type_synonym safety_settings = "(harm_category \<times> harm_block_threshold) list"

text \<open>\<^verbatim>\<open>genai.GenerativeModel(model_name=..., generation_config=..., safety_settings=...)\<close>\<close>

record generative_model =
  model_name :: string
  model_generation_config :: generation_config
  model_safety_settings :: safety_settings

text \<open>
  One call \<^verbatim>\<open>genai_model.generate_content(full_input, generation_config=..., safety_settings=...)\<close>,
  with the API key that \<^verbatim>\<open>genai.configure\<close> had set when the call was made.
\<close>

record generation_call =
  call_api_key :: "string option"
  call_model :: generative_model
  call_contents :: string
  call_generation_config :: generation_config
  call_safety_settings :: safety_settings

subsection \<open>The HTTP request\<close>

text \<open>
  \<^verbatim>\<open>json.dumps\<close> is modelled up to the wire format: the serialised text is represented
  by the JSON document it denotes. A value that is not a string or \<^verbatim>\<open>None\<close> has no
  encoding and \<^verbatim>\<open>json.dumps\<close> raises \<^verbatim>\<open>TypeError\<close>.
\<close>

datatype json = JNull | JString string | JObject "(string \<times> json) list"

fun json_value :: "py_value \<Rightarrow> error + json" where
  "json_value PyNone = Inr JNull"
| "json_value (PyStr s) = Inr (JString s)"
| "json_value (GenerateContentResponse t) =
     Inl (TypeError ''Object of type GenerateContentResponse is not JSON serializable'')"

fun json_items :: "(string \<times> py_value) list \<Rightarrow> error + (string \<times> json) list" where
  "json_items [] = Inr []"
| "json_items ((k, v) # kvs) =
     (case json_value v of
        Inl e \<Rightarrow> Inl e
      | Inr j \<Rightarrow> (case json_items kvs of Inl e \<Rightarrow> Inl e | Inr js \<Rightarrow> Inr ((k, j) # js)))"

definition json_dumps :: "(string \<times> py_value) list \<Rightarrow> error + json" where
  "json_dumps d = (case json_items d of Inl e \<Rightarrow> Inl e | Inr js \<Rightarrow> Inr (JObject js))"

record http_request =
  req_url :: string
  req_headers :: "(string \<times> string) list"
  req_data :: json

record http_response =
  status_code :: nat
  response_text :: string

subsection \<open>The working tree\<close>

text \<open>
  A directory as \<^verbatim>\<open>os.walk\<close> lists it: its files and its subdirectories, each in listing
  order. A file carries what \<^verbatim>\<open>open(...).read()\<close> gives: its text, or the error raised
  when it cannot be read or decoded. The tree holds regular files and directories only.
\<close>

datatype directory =
  Directory (dir_files: "(string \<times> (error + string)) list") (dir_dirs: "(string \<times> directory) list")

subsection \<open>State and the outside world\<close>

text \<open>
  The network calls the process makes, in order, and the process-wide API key of the
  generation client.
\<close>

datatype event = GenerateContent generation_call | HttpPost http_request

record state =
  genai_api_key :: "string option"
  calls :: "event list"

definition initial_state :: state where
  "initial_state = \<lparr>genai_api_key = None, calls = []\<rparr>"

text \<open>
  Everything the program takes from outside the repository: the process environment,
  loguru's level lookup, the builtin \<^verbatim>\<open>int\<close> on a string, the working tree, and the two
  network clients with the outcome of each call.
\<close>

record world =
  environ :: "string \<rightharpoonup> string"
  logger_level :: "string \<Rightarrow> error + unit"
  int_of_str :: "string \<Rightarrow> error + int"
  cwd :: directory
  generate_content :: "generation_call \<Rightarrow> error + py_value"
  requests_post :: "http_request \<Rightarrow> error + http_response"

section \<open>Environment validator\<close>

definition required_env_vars :: "string list" where
  "required_env_vars =
     [''GEMINI_API_KEY'', ''GITHUB_TOKEN'', ''GITHUB_REPOSITORY'',
      ''GITHUB_PULL_REQUEST_NUMBER'', ''GIT_COMMIT_HASH'']"

fun check_env_vars :: "(string \<rightharpoonup> string) \<Rightarrow> string list \<Rightarrow> error + unit" where
  "check_env_vars env [] = Inr ()"
| "check_env_vars env (required_env_var # rest) =
     (if env required_env_var = None
      then Inl (ValueError (required_env_var @ '' is not set''))
      else check_env_vars env rest)"

definition check_required_env_vars :: "(string \<rightharpoonup> string) \<Rightarrow> error + unit" where
  "check_required_env_vars env = check_env_vars env required_env_vars"

section \<open>Prompt builder\<close>

definition get_review_prompt :: "string \<Rightarrow> string" where
  "get_review_prompt extra_prompt =
     ''\<newline>'' @
     ''    You are reviewing pull request. The context provided includes the entire project structure and content, followed by the pull request diff.\<newline>'' @
     ''\<newline>'' @
     ''    As an excellent software engineer and security expert, please analyze the pull request (just the pull request. The whole project is just a reference, so you don't need to review the whole thing, just the pull request) Consider the following:\<newline>'' @
     ''\<newline>'' @
     ''    1. Overall pull request structure and code quality\<newline>'' @
     ''    2. Potential security vulnerabilities in the changed code, if any\<newline>'' @
     ''    3. Changes introduced in the pull request\<newline>'' @
     ''    4. Improvements or issues in the pull request, if any\<newline>'' @
     ''    5. Suggestions for better code organization, performance, or security, if any\<newline>'' @
     ''\<newline>'' @
     ''    Provide a comprehensive review that includes:\<newline>'' @
     ''    - A summary of the pull request structure and any notable patterns or issues\<newline>'' @
     ''    - Comments on specific files or sections of pull request that require attention\<newline>'' @
     ''    - Detailed analysis of the changes in the pull request\<newline>'' @
     ''    - Suggestions for improvements or alternative implementations, if any\<newline>'' @
     ''    - Conclusion and Approval/Rejection of the pull request\<newline>'' @
     ''\<newline>'' @
     ''    '' @ extra_prompt @ ''\<newline>'' @
     ''\<newline>'' @
     ''    Please begin your review now.\<newline>'' @
     ''    ''"

section \<open>Comment publisher\<close>

definition create_a_comment_to_pull_request ::
  "world \<Rightarrow> state \<Rightarrow> string option \<Rightarrow> string option \<Rightarrow> int \<Rightarrow> string option \<Rightarrow> py_value
     \<Rightarrow> (error + http_response) \<times> state" where
  "create_a_comment_to_pull_request w s github_token github_repository pull_request_number
       git_commit_hash body =
     (let headers = [(''Accept'', ''application/vnd.github.v3.patch''),
                     (''authorization'', ''Bearer '' @ format_opt github_token)];
          data = [(''body'', body),
                  (''commit_id'', py_of_opt git_commit_hash),
                  (''event'', PyStr ''COMMENT'')];
          url = ''https://api.github.com/repos/'' @ format_opt github_repository @
                ''/pulls/'' @ str_int pull_request_number @ ''/reviews''
      in case json_dumps data of
           Inl e \<Rightarrow> (Inl e, s)
         | Inr payload \<Rightarrow>
             (let request = \<lparr>req_url = url, req_headers = headers, req_data = payload\<rparr>
              in (requests_post w request, s\<lparr>calls := calls s @ [HttpPost request]\<rparr>)))"

section \<open>Chunking helper\<close>

text \<open>
  \<^verbatim>\<open>range(i, stop, step)\<close> for a positive step; \<^verbatim>\<open>range\<close> itself rejects step 0 and
  the caller below raises before it gets here.
\<close>

function range_from :: "nat \<Rightarrow> nat \<Rightarrow> nat \<Rightarrow> nat list" where
  "range_from i stop step =
     (if step = 0 \<or> stop \<le> i then [] else i # range_from (i + step) stop step)"
  by pat_completeness auto
termination
  by (relation "measure (\<lambda>(i, stop, step). stop - i)") auto

declare range_from.simps [simp del]

definition chunk_string :: "string \<Rightarrow> int \<Rightarrow> error + string list" where
  "chunk_string input_string chunk_size =
     (if chunk_size = 0 then Inl (ValueError ''range() arg 3 must not be zero'')
      else if chunk_size < 0 then Inr []
      else Inr (map (\<lambda>i. take (nat chunk_size) (drop i input_string))
                    (range_from 0 (length input_string) (nat chunk_size))))"

section \<open>Review requester\<close>

definition get_review ::
  "world \<Rightarrow> state \<Rightarrow> string \<Rightarrow> string \<Rightarrow> string \<Rightarrow> string \<Rightarrow> real \<Rightarrow> int \<Rightarrow> real \<Rightarrow> real \<Rightarrow> real
     \<Rightarrow> (error + py_value) \<times> state" where
  "get_review w s context diff extra_prompt model temperature max_tokens top_p
       frequency_penalty presence_penalty =
     (let review_prompt = get_review_prompt extra_prompt;
          generation_config = \<lparr>gc_temperature = temperature, gc_top_p = top_p, gc_top_k = 40,
                               gc_max_output_tokens = max_tokens\<rparr>;
          safety_settings = [(HARM_CATEGORY_HARASSMENT, BLOCK_NONE),
                             (HARM_CATEGORY_HATE_SPEECH, BLOCK_NONE),
                             (HARM_CATEGORY_SEXUALLY_EXPLICIT, BLOCK_NONE),
                             (HARM_CATEGORY_DANGEROUS_CONTENT, BLOCK_NONE)];
          genai_model = \<lparr>model_name = model, model_generation_config = generation_config,
                         model_safety_settings = safety_settings\<rparr>;
          full_input = review_prompt @ ''\<newline>\<newline>Project Context:\<newline>'' @ context @
                       ''\<newline>\<newline>Pull Request Changes:\<newline>'' @ diff;
          call = \<lparr>call_api_key = genai_api_key s, call_model = genai_model,
                  call_contents = full_input, call_generation_config = generation_config,
                  call_safety_settings = safety_settings\<rparr>
      in (generate_content w call, s\<lparr>calls := calls s @ [GenerateContent call]\<rparr>))"

section \<open>Project content reader\<close>

definition allowed_suffixes :: "string list" where
  "allowed_suffixes =
     [''.py'', ''.yml'', ''.yaml'', ''.md'', ''.txt'', ''.json'', ''.kt'', ''.html'', ''.js'',
      ''.ts'', ''.css'', ''.java'', ''.c'', ''.cpp'', ''.h'', ''.hpp'', ''.go'', ''.rs'', ''.swift'',
      ''.sh'', ''.rb'', ''.php'', ''.mdx'', ''.rs'', ''.sql'', ''.ini'', ''.cfg'', ''.conf'', ''.toml'',
      ''.env'', ''.cfg'', ''.conf'', ''.toml'', ''.ini'', ''.txt'', ''.xml'']"

definition default_exclude_dirs :: "string list" where
  "default_exclude_dirs = [''.github'', ''.idea'']"

definition file_section :: "string \<Rightarrow> string \<Rightarrow> string" where
  "file_section file_path content =
     ''File: '' @ file_path @ ''\<newline>\<newline> ```'' @ content @ ''```\<newline>\<newline>''"

text \<open>The inner loop \<^verbatim>\<open>for file in files\<close> of one directory, \<^verbatim>\<open>root\<close> in the source.\<close>

fun read_files ::
  "string \<Rightarrow> (string \<times> (error + string)) list \<Rightarrow> string list \<Rightarrow> error + string list" where
  "read_files dirpath [] project_content = Inr project_content"
| "read_files dirpath ((file, r) # files) project_content =
     (if endswith_any file allowed_suffixes
      then (case r of
              Inl e \<Rightarrow> Inl e
            | Inr content \<Rightarrow>
                read_files dirpath files
                  (project_content @ [file_section (os_path_join dirpath file) content]))
      else read_files dirpath files project_content)"

text \<open>
  The outer loop over \<^verbatim>\<open>os.walk('.')\<close>, top down: the body runs on a directory (its
  subdirectories pruned in place, its files read), then the walk descends into each
  subdirectory that was kept, in order.
\<close>

fun walk :: "string list \<Rightarrow> string \<Rightarrow> directory \<Rightarrow> string list \<Rightarrow> error + string list"
  and walk_dirs ::
    "string list \<Rightarrow> string \<Rightarrow> (string \<times> directory) list \<Rightarrow> string list \<Rightarrow> error + string list"
  where
  "walk exclude_dirs dirpath (Directory files dirs) project_content =
     (case read_files dirpath files project_content of
        Inl e \<Rightarrow> Inl e
      | Inr project_content' \<Rightarrow> walk_dirs exclude_dirs dirpath dirs project_content')"
| "walk_dirs exclude_dirs dirpath [] project_content = Inr project_content"
| "walk_dirs exclude_dirs dirpath ((d, sub) # dirs) project_content =
     (if d \<in> set exclude_dirs then walk_dirs exclude_dirs dirpath dirs project_content
      else (case walk exclude_dirs (os_path_join dirpath d) sub project_content of
              Inl e \<Rightarrow> Inl e
            | Inr project_content' \<Rightarrow> walk_dirs exclude_dirs dirpath dirs project_content'))"

definition read_project_files :: "string list \<Rightarrow> directory \<Rightarrow> error + string" where
  "read_project_files exclude_dirs tree =
     (case walk exclude_dirs ''.'' tree [] of
        Inl e \<Rightarrow> Inl e
      | Inr project_content \<Rightarrow> Inr (str_join ''\<newline>'' project_content))"

section \<open>Entrypoint\<close>

record options =
  opt_diff :: string
  opt_diff_chunk_size :: int
  opt_model :: string
  opt_extra_prompt :: string
  opt_temperature :: real
  opt_max_tokens :: int
  opt_top_p :: real
  opt_frequency_penalty :: real
  opt_presence_penalty :: real
  opt_log_level :: string

text \<open>\<^verbatim>\<open>int(os.getenv(...))\<close>: \<^verbatim>\<open>int(None)\<close> raises \<^verbatim>\<open>TypeError\<close>.\<close>

definition py_int :: "world \<Rightarrow> string option \<Rightarrow> error + int" where
  "py_int w v =
     (case v of
        None \<Rightarrow> Inl (TypeError (''int() argument must be a string, a bytes-like object or a real number, not '' @
                 [CHR 0x27] @ ''NoneType'' @ [CHR 0x27]))
      | Some s \<Rightarrow> int_of_str w s)"

definition main :: "world \<Rightarrow> options \<Rightarrow> (error + unit) \<times> state" where
  "main w opts =
     (case logger_level w (opt_log_level opts) of
        Inl e \<Rightarrow> (Inl e, initial_state)
      | Inr _ \<Rightarrow>
     (case check_required_env_vars (environ w) of
        Inl e \<Rightarrow> (Inl e, initial_state)
      | Inr _ \<Rightarrow>
     (let api_key = environ w ''GEMINI_API_KEY'';
          s1 = initial_state\<lparr>genai_api_key := api_key\<rparr>
      in case read_project_files default_exclude_dirs (cwd w) of
        Inl e \<Rightarrow> (Inl e, s1)
      | Inr project_content \<Rightarrow>
     (case get_review w s1 project_content (opt_diff opts) (opt_extra_prompt opts)
             (opt_model opts) (opt_temperature opts) (opt_max_tokens opts) (opt_top_p opts)
             (opt_frequency_penalty opts) (opt_presence_penalty opts) of
        (Inl e, s2) \<Rightarrow> (Inl e, s2)
      | (Inr review, s2) \<Rightarrow>
     (case py_int w (environ w ''GITHUB_PULL_REQUEST_NUMBER'') of
        Inl e \<Rightarrow> (Inl e, s2)
      | Inr pull_request_number \<Rightarrow>
     (case create_a_comment_to_pull_request w s2 (environ w ''GITHUB_TOKEN'')
             (environ w ''GITHUB_REPOSITORY'') pull_request_number
             (environ w ''GIT_COMMIT_HASH'') review of
        (Inl e, s3) \<Rightarrow> (Inl e, s3)
      | (Inr response, s3) \<Rightarrow> (Inr (), s3)))))))"

section \<open>Notions used to state the properties\<close>

definition is_post :: "event \<Rightarrow> bool" where
  "is_post ev = (case ev of HttpPost r \<Rightarrow> True | GenerateContent c \<Rightarrow> False)"

text \<open>The state in which \<^verbatim>\<open>main\<close> reads the project and requests the review.\<close>

definition configured :: "world \<Rightarrow> state" where
  "configured w = initial_state\<lparr>genai_api_key := environ w ''GEMINI_API_KEY''\<rparr>"

text \<open>
  Every file of a tree, in walk order, with the names of the directories that lead to it
  from the root of the tree.
\<close>

type_synonym file_entry = "string list \<times> string \<times> (error + string)"

definition in_dir :: "string \<Rightarrow> file_entry \<Rightarrow> file_entry" where
  "in_dir d e = (d # fst e, snd e)"

fun tree_files :: "directory \<Rightarrow> file_entry list"
  and subdir_files :: "(string \<times> directory) list \<Rightarrow> file_entry list"
  where
  "tree_files (Directory files dirs) = map (Pair []) files @ subdir_files dirs"
| "subdir_files [] = []"
| "subdir_files ((d, sub) # dirs) =
     map (in_dir d) (tree_files sub) @ subdir_files dirs"

definition under_excluded :: "string list \<Rightarrow> file_entry \<Rightarrow> bool" where
  "under_excluded exclude_dirs e = list_ex (\<lambda>d. d \<in> set exclude_dirs) (fst e)"

definition has_allowed_extension :: "file_entry \<Rightarrow> bool" where
  "has_allowed_extension e = endswith_any (fst (snd e)) allowed_suffixes"

definition readable :: "file_entry \<Rightarrow> bool" where
  "readable e = (case snd (snd e) of Inl err \<Rightarrow> False | Inr content \<Rightarrow> True)"


definition kept_files :: "string list \<Rightarrow> directory \<Rightarrow> file_entry list" where
  "kept_files exclude_dirs tree =
     filter (\<lambda>e. has_allowed_extension e \<and> \<not> under_excluded exclude_dirs e) (tree_files tree)"

text \<open>The section of a file: its path from the directory \<open>dirpath\<close> and its text.\<close>

definition entry_section :: "string \<Rightarrow> file_entry \<Rightarrow> string" where
  "entry_section dirpath e =
     file_section (os_path_join (foldl os_path_join dirpath (fst e)) (fst (snd e)))
       (case snd (snd e) of Inl err \<Rightarrow> [] | Inr content \<Rightarrow> content)"

text \<open>A tree without its excluded directories, at every depth.\<close>

fun prune :: "string list \<Rightarrow> directory \<Rightarrow> directory"
  and prune_dirs :: "string list \<Rightarrow> (string \<times> directory) list \<Rightarrow> (string \<times> directory) list"
  where
  "prune exclude_dirs (Directory files dirs) = Directory files (prune_dirs exclude_dirs dirs)"
| "prune_dirs exclude_dirs [] = []"
| "prune_dirs exclude_dirs ((d, sub) # dirs) =
     (if d \<in> set exclude_dirs then prune_dirs exclude_dirs dirs
      else (d, prune exclude_dirs sub) # prune_dirs exclude_dirs dirs)"


subsection \<open>Auxiliary functions of the proofs\<close>

text \<open>
  Reading a list of file entries in order, stopping at the first that cannot be read; and
  the entries the walk keeps.
\<close>

fun collect :: "string \<Rightarrow> file_entry list \<Rightarrow> string list \<Rightarrow> error + string list" where
  "collect dirpath [] project_content = Inr project_content"
| "collect dirpath (e # es) project_content =
     (case snd (snd e) of
        Inl err \<Rightarrow> Inl err
      | Inr content \<Rightarrow> collect dirpath es (project_content @ [entry_section dirpath e]))"

definition keep :: "string list \<Rightarrow> file_entry \<Rightarrow> bool" where
  "keep ex e = (has_allowed_extension e \<and> \<not> under_excluded ex e)"

subsection \<open>Concrete inputs\<close>

text \<open>
  The end-to-end scenario of the specification: one file \<^verbatim>\<open>a.py\<close> in the tree, the five
  variables set, default options with the diff of the scenario. The outcome of the two
  network calls is a parameter, as a test would mock it.
\<close>

definition sample_tree :: directory where
  "sample_tree = Directory [(''a.py'', Inr ''print(1)'')] []"

definition workflow_tree :: directory where
  "workflow_tree =
     Directory [(''a.py'', Inr ''print(1)''), (''logo.png'', Inl (LibraryError ''UnicodeDecodeError''))]
       [(''.github'', Directory []
           [(''workflows'', Directory [(''ci.yml'', Inr ''on: push'')] [])]),
        (''src'', Directory [(''b.md'', Inr ''# b'')]
           [(''.idea'', Directory [(''workspace.xml'', Inr ''<project/>'')] [])])]"

definition sample_environ :: "string \<rightharpoonup> string" where
  "sample_environ =
     [''GEMINI_API_KEY'' \<mapsto> ''key'', ''GITHUB_TOKEN'' \<mapsto> ''token'',
      ''GITHUB_REPOSITORY'' \<mapsto> ''owner/repo'', ''GITHUB_PULL_REQUEST_NUMBER'' \<mapsto> ''7'',
      ''GIT_COMMIT_HASH'' \<mapsto> ''abc123'']"

definition sample_logger_level :: "string \<Rightarrow> error + unit" where
  "sample_logger_level name =
     (if name \<in> set [''TRACE'', ''DEBUG'', ''INFO'', ''SUCCESS'', ''WARNING'', ''ERROR'', ''CRITICAL'']
      then Inr () else Inl (ValueError (''Level '' @ name @ '' does not exist'')))"

definition sample_int_of_str :: "string \<Rightarrow> error + int" where
  "sample_int_of_str s =
     (if s = ''7'' then Inr 7 else Inl (ValueError (''invalid literal for int() with base 10: '' @ s)))"

definition sample_world ::
  "(string \<rightharpoonup> string) \<Rightarrow> error + py_value \<Rightarrow> error + http_response \<Rightarrow> world" where
  "sample_world env generated posted =
     \<lparr>environ = env, logger_level = sample_logger_level, int_of_str = sample_int_of_str,
      cwd = sample_tree, generate_content = (\<lambda>call. generated),
      requests_post = (\<lambda>request. posted)\<rparr>"

definition sample_options :: options where
  "sample_options =
     \<lparr>opt_diff = ''diff --git a/a.py b/a.py'', opt_diff_chunk_size = 3500,
      opt_model = ''gemini-1.5-flash'', opt_extra_prompt = [], opt_temperature = 1 / 10,
      opt_max_tokens = 8192, opt_top_p = 1, opt_frequency_penalty = 0,
      opt_presence_penalty = 0, opt_log_level = ''INFO''\<rparr>"

definition sample_response :: "nat \<Rightarrow> http_response" where
  "sample_response code = \<lparr>status_code = code, response_text = ''{}''\<rparr>"


definition partial_environ :: "string \<rightharpoonup> string" where
  "partial_environ = sample_environ(''GITHUB_REPOSITORY'' := None, ''GIT_COMMIT_HASH'' := None)"

section \<open>The chunking helper\<close>

lemma range_from_concat:
  "0 < n \<Longrightarrow> concat (map (\<lambda>j. take n (drop j s)) (range_from i (length s) n)) = drop i s"
proof (induction i "length s" n rule: range_from.induct)
  case (1 i step)
  show ?case
  proof (cases "length s \<le> i")
    case True
    then show ?thesis by (simp add: range_from.simps)
  next
    case False
    from False 1(2) have unf:
      "range_from i (length s) step = i # range_from (i + step) (length s) step"
      by (subst range_from.simps) simp
    from False 1 have ih:
      "concat (map (\<lambda>j. take step (drop j s)) (range_from (i + step) (length s) step))
        = drop (i + step) s" by simp
    have split: "take step (drop i s) @ drop (i + step) s = drop i s"
      using append_take_drop_id[of step "drop i s"] by (simp only: drop_drop add.commute)
    show ?thesis
      unfolding unf by (simp only: list.map concat.simps ih split)
  qed
qed

lemma range_from_bound: "j \<in> set (range_from i stop n) \<Longrightarrow> j < stop"
  by (induction i stop n rule: range_from.induct)
     (subst (asm) (2) range_from.simps, auto split: if_splits)

lemma range_from_full:
  "0 < n \<Longrightarrow> Suc k < length (range_from i stop n) \<Longrightarrow> range_from i stop n ! k + n < stop"
proof (induction i stop n arbitrary: k rule: range_from.induct)
  case (1 i stop step)
  from 1(3) have ne: "\<not> stop \<le> i" by (subst (asm) range_from.simps) (auto split: if_splits)
  with 1(2) have unf: "range_from i stop step = i # range_from (i + step) stop step"
    by (subst range_from.simps) simp
  show ?case
  proof (cases k)
    case 0
    with 1(3) unf have "range_from (i + step) stop step \<noteq> []" by auto
    then have "i + step < stop" by (subst (asm) range_from.simps) (auto split: if_splits)
    with 0 unf show ?thesis by simp
  next
    case (Suc k')
    with 1(3) unf have "Suc k' < length (range_from (i + step) stop step)" by simp
    with 1(1)[of k'] 1(2) ne have "range_from (i + step) stop step ! k' + step < stop" by simp
    with Suc unf show ?thesis by simp
  qed
qed

lemma range_from_empty: "0 < n \<Longrightarrow> range_from 0 stop n = [] \<longleftrightarrow> stop = 0"
  by (subst range_from.simps) auto

text \<open>
  Claim C10. For every string and every chunk size of at least 1, \<open>chunk_string\<close> returns
  a list of chunks whose concatenation, in order, is the input; every chunk but the last
  has exactly \<open>chunk_size\<close> characters, the last has between 1 and \<open>chunk_size\<close>, and
  the list is empty exactly when the input is.
\<close>

theorem chunk_string_partition:
  assumes "1 \<le> chunk_size"
  shows "\<exists>chunks. chunk_string s chunk_size = Inr chunks
           \<and> concat chunks = s
           \<and> (\<forall>k. Suc k < length chunks \<longrightarrow> int (length (chunks ! k)) = chunk_size)
           \<and> (chunks \<noteq> [] \<longrightarrow> 1 \<le> length (last chunks) \<and> int (length (last chunks)) \<le> chunk_size)
           \<and> (chunks = [] \<longleftrightarrow> s = [])"
proof -
  define n where "n = nat chunk_size"
  define idx where "idx = range_from 0 (length s) n"
  define chunks where "chunks = map (\<lambda>i. take n (drop i s)) idx"
  from assms have n: "0 < n" "int n = chunk_size" by (simp_all add: n_def)
  from assms have eq: "chunk_string s chunk_size = Inr chunks"
    by (simp add: chunk_string_def chunks_def idx_def n_def)
  have c: "concat chunks = s"
    using range_from_concat[OF n(1), of s 0] by (simp add: chunks_def idx_def)
  have full: "int (length (chunks ! k)) = chunk_size" if "Suc k < length chunks" for k
  proof -
    from that have "idx ! k + n < length s"
      using range_from_full[OF n(1), of k 0 "length s"] by (simp add: chunks_def idx_def)
    with that n show ?thesis by (simp add: chunks_def)
  qed
  have lastc: "1 \<le> length (last chunks) \<and> int (length (last chunks)) \<le> chunk_size" if "chunks \<noteq> []"
  proof -
    from that have "idx \<noteq> []" by (simp add: chunks_def)
    then have "last idx \<in> set idx" by simp
    then have "last idx < length s" unfolding idx_def by (rule range_from_bound)
    moreover have "last chunks = take n (drop (last idx) s)"
      using \<open>idx \<noteq> []\<close> by (simp add: chunks_def last_map)
    ultimately show ?thesis using n by (auto simp: min_def)
  qed
  have emp: "chunks = [] \<longleftrightarrow> s = []"
    using range_from_empty[OF n(1), of "length s"] by (simp add: chunks_def idx_def)
  from eq c full lastc emp show ?thesis by blast
qed

theorem chunk_string_partition_witness:
  "(1::int) \<le> 3 \<and> chunk_string ''abcdefg'' 3 = Inr [''abc'', ''def'', ''g'']
     \<and> concat [''abc'', ''def'', ''g''] = ''abcdefg''"
proof -
  have h: "(1::int) \<le> 3" by simp
  have ev: "chunk_string ''abcdefg'' 3 = Inr [''abc'', ''def'', ''g'']"
    by (simp add: chunk_string_def range_from.simps)
  from chunk_string_partition[OF h, of "''abcdefg''"] ev
  have "concat [''abc'', ''def'', ''g''] = ''abcdefg''" by auto
  with h ev show ?thesis by simp
qed

section \<open>The steps of the entrypoint\<close>

text \<open>
  How \<open>main\<close> ends when a step raises, and what it does once every step before the
  publisher has succeeded.
\<close>

lemma check_env_vars_find:
  "check_env_vars env vs =
     (case List.find (\<lambda>v. env v = None) vs of
        None \<Rightarrow> Inr ()
      | Some v \<Rightarrow> Inl (ValueError (v @ '' is not set'')))"
  by (induction vs) simp_all


lemma main_logger_fails:
  "logger_level w (opt_log_level opts) = Inl e \<Longrightarrow> main w opts = (Inl e, initial_state)"
  by (simp add: main_def)

lemma main_check_fails:
  "logger_level w (opt_log_level opts) = Inr u \<Longrightarrow> check_required_env_vars (environ w) = Inl e
     \<Longrightarrow> main w opts = (Inl e, initial_state)"
  by (simp add: main_def)

lemma main_read_fails:
  "logger_level w (opt_log_level opts) = Inr u \<Longrightarrow> check_required_env_vars (environ w) = Inr u'
     \<Longrightarrow> read_project_files default_exclude_dirs (cwd w) = Inl e
     \<Longrightarrow> main w opts = (Inl e, configured w)"
  by (simp add: main_def configured_def)

lemma main_review_fails:
  "logger_level w (opt_log_level opts) = Inr u \<Longrightarrow> check_required_env_vars (environ w) = Inr u'
     \<Longrightarrow> read_project_files default_exclude_dirs (cwd w) = Inr pc
     \<Longrightarrow> get_review w (configured w) pc (opt_diff opts) (opt_extra_prompt opts)
             (opt_model opts) (opt_temperature opts) (opt_max_tokens opts) (opt_top_p opts)
             (opt_frequency_penalty opts) (opt_presence_penalty opts) = (Inl e, s2)
     \<Longrightarrow> main w opts = (Inl e, s2)"
  by (simp add: main_def configured_def)

lemma main_publishes:
  "logger_level w (opt_log_level opts) = Inr u \<Longrightarrow> check_required_env_vars (environ w) = Inr u'
     \<Longrightarrow> read_project_files default_exclude_dirs (cwd w) = Inr pc
     \<Longrightarrow> get_review w (configured w) pc (opt_diff opts) (opt_extra_prompt opts)
             (opt_model opts) (opt_temperature opts) (opt_max_tokens opts) (opt_top_p opts)
             (opt_frequency_penalty opts) (opt_presence_penalty opts) = (Inr review, s2)
     \<Longrightarrow> py_int w (environ w ''GITHUB_PULL_REQUEST_NUMBER'') = Inr n
     \<Longrightarrow> main w opts =
          (case create_a_comment_to_pull_request w s2 (environ w ''GITHUB_TOKEN'')
                  (environ w ''GITHUB_REPOSITORY'') n (environ w ''GIT_COMMIT_HASH'') review of
             (Inl e, s3) \<Rightarrow> (Inl e, s3)
           | (Inr response, s3) \<Rightarrow> (Inr (), s3))"
  by (simp add: main_def configured_def)

lemma configured_calls: "calls (configured w) = []" "genai_api_key (configured w) = environ w ''GEMINI_API_KEY''"
  by (simp_all add: configured_def initial_state_def)

lemma get_review_calls:
  "calls (snd (get_review w s ctx diff ep m t mt tp fp pp)) = calls s @
     [GenerateContent
        \<lparr>call_api_key = genai_api_key s,
         call_model = \<lparr>model_name = m,
            model_generation_config = \<lparr>gc_temperature = t, gc_top_p = tp, gc_top_k = 40,
               gc_max_output_tokens = mt\<rparr>,
            model_safety_settings = [(HARM_CATEGORY_HARASSMENT, BLOCK_NONE),
               (HARM_CATEGORY_HATE_SPEECH, BLOCK_NONE),
               (HARM_CATEGORY_SEXUALLY_EXPLICIT, BLOCK_NONE),
               (HARM_CATEGORY_DANGEROUS_CONTENT, BLOCK_NONE)]\<rparr>,
         call_contents = get_review_prompt ep @ ''\<newline>\<newline>Project Context:\<newline>'' @ ctx @
            ''\<newline>\<newline>Pull Request Changes:\<newline>'' @ diff,
         call_generation_config = \<lparr>gc_temperature = t, gc_top_p = tp, gc_top_k = 40,
            gc_max_output_tokens = mt\<rparr>,
         call_safety_settings = [(HARM_CATEGORY_HARASSMENT, BLOCK_NONE),
            (HARM_CATEGORY_HATE_SPEECH, BLOCK_NONE),
            (HARM_CATEGORY_SEXUALLY_EXPLICIT, BLOCK_NONE),
            (HARM_CATEGORY_DANGEROUS_CONTENT, BLOCK_NONE)]\<rparr>]"
  by (simp add: get_review_def Let_def)

lemma get_review_no_post:
  "filter is_post (calls (snd (get_review w s ctx diff ep m t mt tp fp pp)))
     = filter is_post (calls s)"
  by (simp add: get_review_calls is_post_def)

lemma get_review_result:
  "fst (get_review w s ctx diff ep m t mt tp fp pp) = Inl e \<longleftrightarrow>
   (\<exists>call. generate_content w call = Inl e
      \<and> calls (snd (get_review w s ctx diff ep m t mt tp fp pp)) = calls s @ [GenerateContent call])"
  by (auto simp: get_review_def Let_def)

lemma publisher_raw_object:
  "create_a_comment_to_pull_request w s tok repo n h (GenerateContentResponse t)
     = (Inl (TypeError ''Object of type GenerateContentResponse is not JSON serializable''), s)"
  by (simp add: create_a_comment_to_pull_request_def json_dumps_def)

lemma publisher_posts:
  assumes "json_dumps [(''body'', body), (''commit_id'', py_of_opt h), (''event'', PyStr ''COMMENT'')]
             = Inr payload"
  shows "create_a_comment_to_pull_request w s tok repo n h body =
     (requests_post w
        \<lparr>req_url = ''https://api.github.com/repos/'' @ format_opt repo @ ''/pulls/'' @
                     str_int n @ ''/reviews'',
         req_headers = [(''Accept'', ''application/vnd.github.v3.patch''),
                        (''authorization'', ''Bearer '' @ format_opt tok)],
         req_data = payload\<rparr>,
      s\<lparr>calls := calls s @ [HttpPost
        \<lparr>req_url = ''https://api.github.com/repos/'' @ format_opt repo @ ''/pulls/'' @
                     str_int n @ ''/reviews'',
         req_headers = [(''Accept'', ''application/vnd.github.v3.patch''),
                        (''authorization'', ''Bearer '' @ format_opt tok)],
         req_data = payload\<rparr>]\<rparr>)"
  using assms by (simp add: create_a_comment_to_pull_request_def Let_def)

subsection \<open>The sample inputs\<close>

lemma sample_world_simps:
  "environ (sample_world env g p) = env"
  "logger_level (sample_world env g p) = sample_logger_level"
  "int_of_str (sample_world env g p) = sample_int_of_str"
  "cwd (sample_world env g p) = sample_tree"
  "generate_content (sample_world env g p) call = g"
  "requests_post (sample_world env g p) request = p"
  by (simp_all add: sample_world_def)

lemma sample_logger_ok: "sample_logger_level (opt_log_level sample_options) = Inr ()"
  by (simp add: sample_logger_level_def sample_options_def)

lemma sample_environ_values:
  "sample_environ ''GEMINI_API_KEY'' = Some ''key''"
  "sample_environ ''GITHUB_TOKEN'' = Some ''token''"
  "sample_environ ''GITHUB_REPOSITORY'' = Some ''owner/repo''"
  "sample_environ ''GITHUB_PULL_REQUEST_NUMBER'' = Some ''7''"
  "sample_environ ''GIT_COMMIT_HASH'' = Some ''abc123''"
  by (simp_all add: sample_environ_def)


lemma partial_environ_values:
  "partial_environ ''GEMINI_API_KEY'' = Some ''key''"
  "partial_environ ''GITHUB_TOKEN'' = Some ''token''"
  "partial_environ ''GITHUB_REPOSITORY'' = None"
  "partial_environ ''GITHUB_PULL_REQUEST_NUMBER'' = Some ''7''"
  "partial_environ ''GIT_COMMIT_HASH'' = None"
  by (simp_all add: partial_environ_def sample_environ_def)

lemma sample_check_ok: "check_required_env_vars sample_environ = Inr ()"
  by (simp add: check_required_env_vars_def required_env_vars_def sample_environ_values)


lemma sample_tree_read:
  "read_project_files default_exclude_dirs sample_tree = Inr (file_section ''./a.py'' ''print(1)'')"
  by (simp add: read_project_files_def sample_tree_def endswith_any_def endswith_def
      allowed_suffixes_def os_path_join_def)

lemma sample_pr_number: "py_int (sample_world env g p) (Some ''7'') = Inr 7"
  by (simp add: py_int_def sample_world_simps sample_int_of_str_def)

lemma str_int_7: "str_int 7 = ''7''"
  by code_simp

lemma sample_get_review:
  "fst (get_review (sample_world env g p) s ctx diff ep m t mt tp fp pp) = g"
  by (simp add: get_review_def Let_def sample_world_simps)

lemma sample_main_reaches_publisher:
  assumes env: "check_required_env_vars env = Inr ()"
      "env ''GITHUB_PULL_REQUEST_NUMBER'' = Some ''7''"
  shows "main (sample_world env (Inr review) p) sample_options =
     (case create_a_comment_to_pull_request (sample_world env (Inr review) p)
             (snd (get_review (sample_world env (Inr review) p)
                (configured (sample_world env (Inr review) p))
                (file_section ''./a.py'' ''print(1)'') (opt_diff sample_options)
                (opt_extra_prompt sample_options) (opt_model sample_options)
                (opt_temperature sample_options) (opt_max_tokens sample_options)
                (opt_top_p sample_options) (opt_frequency_penalty sample_options)
                (opt_presence_penalty sample_options)))
             (env ''GITHUB_TOKEN'') (env ''GITHUB_REPOSITORY'') 7 (env ''GIT_COMMIT_HASH'') review of
        (Inl e, s3) \<Rightarrow> (Inl e, s3)
      | (Inr response, s3) \<Rightarrow> (Inr (), s3))"
proof -
  let ?w = "sample_world env (Inr review) p"
  have "main ?w sample_options = (case create_a_comment_to_pull_request ?w
             (snd (get_review ?w (configured ?w)
                (file_section ''./a.py'' ''print(1)'') (opt_diff sample_options)
                (opt_extra_prompt sample_options) (opt_model sample_options)
                (opt_temperature sample_options) (opt_max_tokens sample_options)
                (opt_top_p sample_options) (opt_frequency_penalty sample_options)
                (opt_presence_penalty sample_options)))
             (environ ?w ''GITHUB_TOKEN'') (environ ?w ''GITHUB_REPOSITORY'') 7
             (environ ?w ''GIT_COMMIT_HASH'') review of
        (Inl e, s3) \<Rightarrow> (Inl e, s3)
      | (Inr response, s3) \<Rightarrow> (Inr (), s3))"
  proof (rule main_publishes)
    show "logger_level ?w (opt_log_level sample_options) = Inr ()"
      by (simp add: sample_world_simps sample_logger_ok)
    show "check_required_env_vars (environ ?w) = Inr ()"
      by (simp add: sample_world_simps env)
    show "read_project_files default_exclude_dirs (cwd ?w) = Inr (file_section ''./a.py'' ''print(1)'')"
      by (simp add: sample_world_simps sample_tree_read)
    show "py_int ?w (environ ?w ''GITHUB_PULL_REQUEST_NUMBER'') = Inr 7"
      by (simp add: sample_world_simps(1) env sample_pr_number)
    show "get_review ?w (configured ?w) (file_section ''./a.py'' ''print(1)'')
        (opt_diff sample_options) (opt_extra_prompt sample_options) (opt_model sample_options)
        (opt_temperature sample_options) (opt_max_tokens sample_options)
        (opt_top_p sample_options) (opt_frequency_penalty sample_options)
        (opt_presence_penalty sample_options) = (Inr review, snd (get_review ?w (configured ?w)
          (file_section ''./a.py'' ''print(1)'') (opt_diff sample_options)
          (opt_extra_prompt sample_options) (opt_model sample_options)
          (opt_temperature sample_options) (opt_max_tokens sample_options)
          (opt_top_p sample_options) (opt_frequency_penalty sample_options)
          (opt_presence_penalty sample_options)))"
      using sample_get_review[of env "Inr review" p] by (simp add: prod_eq_iff)
  qed
  then show ?thesis by (simp add: sample_world_simps)
qed

section \<open>The published comment\<close>

text \<open>
  Claim C1. With the five variables set and a generation result whose text form is LGTM,
  the publisher should be called with the body LGTM and post it to the reviews endpoint.
  The code passes the response object itself: \<open>main\<close> hands \<open>review\<close> to the
  publisher unchanged, \<open>json.dumps\<close> has no encoding for it and raises, and nothing is
  posted. The theorem evaluates the publisher on such an object and \<open>main\<close> on the
  end-to-end scenario.
\<close>

theorem raw_response_is_not_posted:
  "text_of (GenerateContentResponse ''LGTM'') = ''LGTM''
   \<and> create_a_comment_to_pull_request w s github_token github_repository pull_request_number
         git_commit_hash (GenerateContentResponse ''LGTM'')
       = (Inl (TypeError ''Object of type GenerateContentResponse is not JSON serializable''), s)
   \<and> fst (main (sample_world sample_environ (Inr (GenerateContentResponse ''LGTM''))
                 (Inr (sample_response 200))) sample_options)
       = Inl (TypeError ''Object of type GenerateContentResponse is not JSON serializable'')
   \<and> filter is_post (calls (snd (main (sample_world sample_environ
          (Inr (GenerateContentResponse ''LGTM'')) (Inr (sample_response 200))) sample_options)))
       = []"
  by (simp add: sample_main_reaches_publisher sample_check_ok sample_environ_values
      publisher_raw_object get_review_no_post configured_calls)

section \<open>The environment validator\<close>




text \<open>
  Claim C3. When at least one of the five variables is unset, the validator raises
  \<open>ValueError\<close> naming the first unset variable in the fixed order, \<open>main\<close> ends with an
  error and no network call has been made; when the log level is accepted, the error of
  \<open>main\<close> is the validator's.
\<close>

theorem missing_env_var_raises:
  assumes "\<exists>v \<in> set required_env_vars. environ w v = None"
  shows "\<exists>v. List.find (\<lambda>v. environ w v = None) required_env_vars = Some v
           \<and> check_required_env_vars (environ w) = Inl (ValueError (v @ '' is not set''))
           \<and> (\<exists>e. fst (main w opts) = Inl e)
           \<and> calls (snd (main w opts)) = []
           \<and> (logger_level w (opt_log_level opts) = Inr ()
                \<longrightarrow> fst (main w opts) = Inl (ValueError (v @ '' is not set'')))"
proof -
  from assms obtain v where v: "List.find (\<lambda>v. environ w v = None) required_env_vars = Some v"
    by (cases "List.find (\<lambda>v. environ w v = None) required_env_vars")
       (auto simp: find_None_iff)
  then have chk: "check_required_env_vars (environ w) = Inl (ValueError (v @ '' is not set''))"
    by (simp add: check_required_env_vars_def check_env_vars_find)
  have m: "main w opts = (Inl (ValueError (v @ '' is not set'')), initial_state)"
    if "logger_level w (opt_log_level opts) = Inr ()"
    using that chk by (rule main_check_fails)
  have "(\<exists>e. fst (main w opts) = Inl e) \<and> calls (snd (main w opts)) = []"
  proof (cases "logger_level w (opt_log_level opts)")
    case (Inl e)
    then show ?thesis by (simp add: main_logger_fails initial_state_def)
  next
    case (Inr u)
    then show ?thesis using m by (simp add: initial_state_def)
  qed
  with v chk m show ?thesis by simp
qed

theorem missing_env_var_raises_witness:
  "partial_environ ''GITHUB_REPOSITORY'' = None
   \<and> check_required_env_vars partial_environ = Inl (ValueError ''GITHUB_REPOSITORY is not set'')
   \<and> fst (main (sample_world partial_environ (Inr (PyStr ''LGTM'')) (Inr (sample_response 200)))
            sample_options) = Inl (ValueError ''GITHUB_REPOSITORY is not set'')
   \<and> calls (snd (main (sample_world partial_environ (Inr (PyStr ''LGTM''))
            (Inr (sample_response 200))) sample_options)) = []"
proof -
  let ?w = "sample_world partial_environ (Inr (PyStr ''LGTM'')) (Inr (sample_response 200))"
  have h: "\<exists>v \<in> set required_env_vars. environ ?w v = None"
    by (simp add: sample_world_simps required_env_vars_def partial_environ_values)
  have f: "List.find (\<lambda>v. environ ?w v = None) required_env_vars = Some ''GITHUB_REPOSITORY''"
    by (simp add: sample_world_simps required_env_vars_def partial_environ_values)
  have l: "logger_level ?w (opt_log_level sample_options) = Inr ()"
    by (simp add: sample_world_simps sample_logger_ok)
  from missing_env_var_raises[OF h, of sample_options] f l
  show ?thesis by (auto simp: sample_world_simps partial_environ_values)
qed

section \<open>The review requester\<close>

text \<open>
  Claim C4. Whatever its arguments, \<open>get_review\<close> issues one generation call whose
  safety settings, on the model and on the call, set the four harm categories to
  \<open>BLOCK_NONE\<close>.
\<close>

theorem safety_settings_block_none:
  "\<exists>call. calls (snd (get_review w s ctx diff extra_prompt model temperature max_tokens top_p
              frequency_penalty presence_penalty)) = calls s @ [GenerateContent call]
     \<and> call_safety_settings call =
         [(HARM_CATEGORY_HARASSMENT, BLOCK_NONE), (HARM_CATEGORY_HATE_SPEECH, BLOCK_NONE),
          (HARM_CATEGORY_SEXUALLY_EXPLICIT, BLOCK_NONE), (HARM_CATEGORY_DANGEROUS_CONTENT, BLOCK_NONE)]
     \<and> model_safety_settings (call_model call) = call_safety_settings call"
  by (simp add: get_review_calls)

text \<open>
  Claim C7. The frequency and presence penalties do not reach the generation call: two
  invocations of \<open>get_review\<close> that differ only in them return the same result and leave
  the same record of calls, and \<open>main\<close> is unchanged when the two options change.
\<close>

theorem penalties_are_dead:
  "get_review w s ctx diff extra_prompt model temperature max_tokens top_p
       frequency_penalty presence_penalty
     = get_review w s ctx diff extra_prompt model temperature max_tokens top_p
         frequency_penalty' presence_penalty'
   \<and> main w (opts\<lparr>opt_frequency_penalty := frequency_penalty,
                   opt_presence_penalty := presence_penalty\<rparr>) = main w opts"
  by (simp add: get_review_def main_def Let_def split: sum.split)

section \<open>Failure and publication\<close>

text \<open>
  Claim C8. If the log level lookup, the validator, the project read or the generation
  call raises, \<open>main\<close> ends with that error and no HTTP POST has been made.
\<close>

theorem failure_leaves_no_comment:
  assumes "logger_level w (opt_log_level opts) = Inl e
    \<or> (logger_level w (opt_log_level opts) = Inr ()
        \<and> check_required_env_vars (environ w) = Inl e)
    \<or> (logger_level w (opt_log_level opts) = Inr ()
        \<and> check_required_env_vars (environ w) = Inr ()
        \<and> read_project_files default_exclude_dirs (cwd w) = Inl e)
    \<or> (logger_level w (opt_log_level opts) = Inr ()
        \<and> check_required_env_vars (environ w) = Inr ()
        \<and> read_project_files default_exclude_dirs (cwd w) = Inr project_content
        \<and> fst (get_review w (configured w) project_content (opt_diff opts)
               (opt_extra_prompt opts) (opt_model opts) (opt_temperature opts)
               (opt_max_tokens opts) (opt_top_p opts) (opt_frequency_penalty opts)
               (opt_presence_penalty opts)) = Inl e)"
  shows "fst (main w opts) = Inl e \<and> filter is_post (calls (snd (main w opts))) = []"
proof -
  consider
    (logger) "logger_level w (opt_log_level opts) = Inl e"
  | (check) "logger_level w (opt_log_level opts) = Inr ()"
      "check_required_env_vars (environ w) = Inl e"
  | (read) "logger_level w (opt_log_level opts) = Inr ()"
      "check_required_env_vars (environ w) = Inr ()"
      "read_project_files default_exclude_dirs (cwd w) = Inl e"
  | (review) "logger_level w (opt_log_level opts) = Inr ()"
      "check_required_env_vars (environ w) = Inr ()"
      "read_project_files default_exclude_dirs (cwd w) = Inr project_content"
      "fst (get_review w (configured w) project_content (opt_diff opts)
               (opt_extra_prompt opts) (opt_model opts) (opt_temperature opts)
               (opt_max_tokens opts) (opt_top_p opts) (opt_frequency_penalty opts)
               (opt_presence_penalty opts)) = Inl e"
    using assms by blast
  then show ?thesis
  proof cases
    case logger
    then show ?thesis by (simp add: main_logger_fails initial_state_def)
  next
    case check
    then show ?thesis by (simp add: main_check_fails initial_state_def)
  next
    case read
    then show ?thesis by (simp add: main_read_fails configured_calls)
  next
    case review
    let ?r = "get_review w (configured w) project_content (opt_diff opts)
               (opt_extra_prompt opts) (opt_model opts) (opt_temperature opts)
               (opt_max_tokens opts) (opt_top_p opts) (opt_frequency_penalty opts)
               (opt_presence_penalty opts)"
    from review(4) have "?r = (Inl e, snd ?r)" by (simp add: prod_eq_iff)
    with review(1-3) have "main w opts = (Inl e, snd ?r)" by (rule main_review_fails)
    then show ?thesis by (simp add: get_review_no_post configured_calls)
  qed
qed

theorem failure_leaves_no_comment_witness:
  "fst (get_review (sample_world sample_environ (Inl (LibraryError ''API error''))
          (Inr (sample_response 200)))
        (configured (sample_world sample_environ (Inl (LibraryError ''API error''))
          (Inr (sample_response 200))))
        (file_section ''./a.py'' ''print(1)'') (opt_diff sample_options)
        (opt_extra_prompt sample_options) (opt_model sample_options)
        (opt_temperature sample_options) (opt_max_tokens sample_options)
        (opt_top_p sample_options) (opt_frequency_penalty sample_options)
        (opt_presence_penalty sample_options)) = Inl (LibraryError ''API error'')
   \<and> fst (main (sample_world sample_environ (Inl (LibraryError ''API error''))
          (Inr (sample_response 200))) sample_options) = Inl (LibraryError ''API error'')
   \<and> filter is_post (calls (snd (main (sample_world sample_environ
          (Inl (LibraryError ''API error'')) (Inr (sample_response 200))) sample_options))) = []"
proof -
  let ?w = "sample_world sample_environ (Inl (LibraryError ''API error''))
          (Inr (sample_response 200))"
  have g: "fst (get_review ?w (configured ?w) (file_section ''./a.py'' ''print(1)'')
        (opt_diff sample_options) (opt_extra_prompt sample_options) (opt_model sample_options)
        (opt_temperature sample_options) (opt_max_tokens sample_options)
        (opt_top_p sample_options) (opt_frequency_penalty sample_options)
        (opt_presence_penalty sample_options)) = Inl (LibraryError ''API error'')"
    by (rule sample_get_review)
  have h: "logger_level ?w (opt_log_level sample_options) = Inr ()
        \<and> check_required_env_vars (environ ?w) = Inr ()
        \<and> read_project_files default_exclude_dirs (cwd ?w)
            = Inr (file_section ''./a.py'' ''print(1)'')"
    by (simp add: sample_world_simps sample_logger_ok sample_check_ok sample_tree_read)
  from h g have
    "logger_level ?w (opt_log_level sample_options) = Inl (LibraryError ''API error'')
    \<or> (logger_level ?w (opt_log_level sample_options) = Inr ()
        \<and> check_required_env_vars (environ ?w) = Inl (LibraryError ''API error''))
    \<or> (logger_level ?w (opt_log_level sample_options) = Inr ()
        \<and> check_required_env_vars (environ ?w) = Inr ()
        \<and> read_project_files default_exclude_dirs (cwd ?w) = Inl (LibraryError ''API error''))
    \<or> (logger_level ?w (opt_log_level sample_options) = Inr ()
        \<and> check_required_env_vars (environ ?w) = Inr ()
        \<and> read_project_files default_exclude_dirs (cwd ?w)
            = Inr (file_section ''./a.py'' ''print(1)'')
        \<and> fst (get_review ?w (configured ?w) (file_section ''./a.py'' ''print(1)'')
               (opt_diff sample_options)
               (opt_extra_prompt sample_options) (opt_model sample_options)
               (opt_temperature sample_options)
               (opt_max_tokens sample_options) (opt_top_p sample_options)
               (opt_frequency_penalty sample_options)
               (opt_presence_penalty sample_options)) = Inl (LibraryError ''API error''))"
    by blast
  from failure_leaves_no_comment[OF this] g show ?thesis by blast
qed

text \<open>
  Claim C9. Whatever response the POST returns, the publisher returns it unchanged after
  exactly one POST; and when the steps before the publisher have succeeded, \<open>main\<close>
  completes normally with that single POST on record, whatever the status code.
\<close>

theorem publish_is_fire_and_forget:
  assumes "json_dumps [(''body'', body), (''commit_id'', py_of_opt git_commit_hash),
                       (''event'', PyStr ''COMMENT'')] = Inr payload"
    and "request =
      \<lparr>req_url = ''https://api.github.com/repos/'' @ format_opt github_repository @ ''/pulls/'' @
                  str_int pull_request_number @ ''/reviews'',
       req_headers = [(''Accept'', ''application/vnd.github.v3.patch''),
                      (''authorization'', ''Bearer '' @ format_opt github_token)],
       req_data = payload\<rparr>"
    and "requests_post w request = Inr response"
  shows "create_a_comment_to_pull_request w s github_token github_repository pull_request_number
           git_commit_hash body = (Inr response, s\<lparr>calls := calls s @ [HttpPost request]\<rparr>)
    \<and> (logger_level w (opt_log_level opts) = Inr ()
        \<and> check_required_env_vars (environ w) = Inr ()
        \<and> read_project_files default_exclude_dirs (cwd w) = Inr project_content
        \<and> get_review w (configured w) project_content (opt_diff opts)
               (opt_extra_prompt opts) (opt_model opts) (opt_temperature opts)
               (opt_max_tokens opts) (opt_top_p opts) (opt_frequency_penalty opts)
               (opt_presence_penalty opts) = (Inr body, s)
        \<and> py_int w (environ w ''GITHUB_PULL_REQUEST_NUMBER'') = Inr pull_request_number
        \<and> github_token = environ w ''GITHUB_TOKEN''
        \<and> github_repository = environ w ''GITHUB_REPOSITORY''
        \<and> git_commit_hash = environ w ''GIT_COMMIT_HASH''
        \<longrightarrow> main w opts = (Inr (), s\<lparr>calls := calls s @ [HttpPost request]\<rparr>)
            \<and> filter is_post (calls (snd (main w opts))) = [HttpPost request])"
proof -
  have pub: "create_a_comment_to_pull_request w s github_token github_repository
           pull_request_number git_commit_hash body
         = (Inr response, s\<lparr>calls := calls s @ [HttpPost request]\<rparr>)"
    using assms(2,3) by (simp add: publisher_posts[OF assms(1)])
  have "main w opts = (Inr (), s\<lparr>calls := calls s @ [HttpPost request]\<rparr>)
            \<and> filter is_post (calls (snd (main w opts))) = [HttpPost request]"
    if pre: "logger_level w (opt_log_level opts) = Inr ()"
        "check_required_env_vars (environ w) = Inr ()"
        "read_project_files default_exclude_dirs (cwd w) = Inr project_content"
        "get_review w (configured w) project_content (opt_diff opts)
               (opt_extra_prompt opts) (opt_model opts) (opt_temperature opts)
               (opt_max_tokens opts) (opt_top_p opts) (opt_frequency_penalty opts)
               (opt_presence_penalty opts) = (Inr body, s)"
        "py_int w (environ w ''GITHUB_PULL_REQUEST_NUMBER'') = Inr pull_request_number"
      and env: "github_token = environ w ''GITHUB_TOKEN''"
        "github_repository = environ w ''GITHUB_REPOSITORY''"
        "git_commit_hash = environ w ''GIT_COMMIT_HASH''"
  proof -
    have m: "main w opts = (Inr (), s\<lparr>calls := calls s @ [HttpPost request]\<rparr>)"
      using pub by (simp add: main_publishes[OF pre] env)
    have "filter is_post (calls s) = []"
      using get_review_no_post[of w "configured w" project_content "opt_diff opts"
          "opt_extra_prompt opts" "opt_model opts" "opt_temperature opts" "opt_max_tokens opts"
          "opt_top_p opts" "opt_frequency_penalty opts" "opt_presence_penalty opts"]
      by (simp add: pre(4) configured_calls)
    with m show ?thesis by (simp add: is_post_def)
  qed
  with pub show ?thesis by blast
qed

theorem publish_is_fire_and_forget_witness:
  "requests_post (sample_world sample_environ (Inr (PyStr ''LGTM'')) (Inr (sample_response 500)))
      \<lparr>req_url = ''https://api.github.com/repos/owner/repo/pulls/7/reviews'',
       req_headers = [(''Accept'', ''application/vnd.github.v3.patch''),
                      (''authorization'', ''Bearer token'')],
       req_data = JObject [(''body'', JString ''LGTM''), (''commit_id'', JString ''abc123''),
                           (''event'', JString ''COMMENT'')]\<rparr>
     = Inr (sample_response 500)
   \<and> status_code (sample_response 500) = 500
   \<and> fst (main (sample_world sample_environ (Inr (PyStr ''LGTM'')) (Inr (sample_response 500)))
            sample_options) = Inr ()
   \<and> filter is_post (calls (snd (main (sample_world sample_environ (Inr (PyStr ''LGTM''))
            (Inr (sample_response 500))) sample_options)))
       = [HttpPost
           \<lparr>req_url = ''https://api.github.com/repos/owner/repo/pulls/7/reviews'',
            req_headers = [(''Accept'', ''application/vnd.github.v3.patch''),
                           (''authorization'', ''Bearer token'')],
            req_data = JObject [(''body'', JString ''LGTM''), (''commit_id'', JString ''abc123''),
                                (''event'', JString ''COMMENT'')]\<rparr>]"
proof -
  let ?w = "sample_world sample_environ (Inr (PyStr ''LGTM'')) (Inr (sample_response 500))"
  let ?payload = "JObject [(''body'', JString ''LGTM''), (''commit_id'', JString ''abc123''),
                           (''event'', JString ''COMMENT'')]"
  let ?request = "\<lparr>req_url = ''https://api.github.com/repos/owner/repo/pulls/7/reviews'',
       req_headers = [(''Accept'', ''application/vnd.github.v3.patch''),
                      (''authorization'', ''Bearer token'')],
       req_data = ?payload\<rparr>"
  let ?s = "snd (get_review ?w (configured ?w) (file_section ''./a.py'' ''print(1)'')
        (opt_diff sample_options) (opt_extra_prompt sample_options) (opt_model sample_options)
        (opt_temperature sample_options) (opt_max_tokens sample_options)
        (opt_top_p sample_options) (opt_frequency_penalty sample_options)
        (opt_presence_penalty sample_options))"
  have dumps: "json_dumps [(''body'', PyStr ''LGTM''), (''commit_id'', py_of_opt (Some ''abc123'')),
                       (''event'', PyStr ''COMMENT'')] = Inr ?payload"
    by (simp add: json_dumps_def py_of_opt_def)
  have req: "?request =
      \<lparr>req_url = ''https://api.github.com/repos/'' @ format_opt (Some ''owner/repo'') @ ''/pulls/'' @
                  str_int 7 @ ''/reviews'',
       req_headers = [(''Accept'', ''application/vnd.github.v3.patch''),
                      (''authorization'', ''Bearer '' @ format_opt (Some ''token''))],
       req_data = ?payload\<rparr>"
    by (simp add: format_opt_def str_int_7)
  have post: "requests_post ?w ?request = Inr (sample_response 500)"
    by (simp add: sample_world_simps)
  have pre: "logger_level ?w (opt_log_level sample_options) = Inr ()
        \<and> check_required_env_vars (environ ?w) = Inr ()
        \<and> read_project_files default_exclude_dirs (cwd ?w)
            = Inr (file_section ''./a.py'' ''print(1)'')
        \<and> get_review ?w (configured ?w) (file_section ''./a.py'' ''print(1)'')
            (opt_diff sample_options) (opt_extra_prompt sample_options)
            (opt_model sample_options) (opt_temperature sample_options)
            (opt_max_tokens sample_options) (opt_top_p sample_options)
            (opt_frequency_penalty sample_options) (opt_presence_penalty sample_options)
            = (Inr (PyStr ''LGTM''), ?s)
        \<and> py_int ?w (environ ?w ''GITHUB_PULL_REQUEST_NUMBER'') = Inr 7
        \<and> Some ''token'' = environ ?w ''GITHUB_TOKEN''
        \<and> Some ''owner/repo'' = environ ?w ''GITHUB_REPOSITORY''
        \<and> Some ''abc123'' = environ ?w ''GIT_COMMIT_HASH''"
    using sample_get_review[of sample_environ "Inr (PyStr ''LGTM'')" "Inr (sample_response 500)"]
    by (simp add: sample_world_simps(1-4) sample_logger_ok sample_check_ok sample_tree_read
        sample_environ_values sample_pr_number prod_eq_iff)
  from publish_is_fire_and_forget[OF dumps req post, of ?s sample_options
      "file_section ''./a.py'' ''print(1)''"] pre
  have m: "main ?w sample_options = (Inr (), ?s\<lparr>calls := calls ?s @ [HttpPost ?request]\<rparr>)
            \<and> filter is_post (calls (snd (main ?w sample_options))) = [HttpPost ?request]"
    by blast
  have code: "status_code (sample_response 500) = 500" by (simp add: sample_response_def)
  from m have ok: "fst (main ?w sample_options) = Inr ()" by simp
  from m have one: "filter is_post (calls (snd (main ?w sample_options))) = [HttpPost ?request]"
    by (rule conjunct2)
  show ?thesis by (intro conjI) (fact post, fact code, fact ok, fact one)
qed

section \<open>The project content reader\<close>

lemma collect_append:
  "collect d (xs @ ys) pc = (case collect d xs pc of Inl e \<Rightarrow> Inl e | Inr pc' \<Rightarrow> collect d ys pc')"
  by (induction xs arbitrary: pc) (auto split: sum.splits)

lemma entry_section_in_dir:
  "entry_section d (in_dir x e) = entry_section (os_path_join d x) e"
  by (simp add: entry_section_def in_dir_def)

lemma snd_in_dir: "snd (in_dir d e) = snd e"
  by (simp add: in_dir_def)

lemma collect_cons_dir:
  "collect d (map (in_dir x) es) pc = collect (os_path_join d x) es pc"
proof (induction es arbitrary: pc)
  case Nil
  show ?case by simp
next
  case (Cons e es)
  show ?case using Cons.IH
    by (cases "snd (snd e)") (simp_all add: entry_section_in_dir snd_in_dir)
qed


lemma collect_err:
  "\<not> list_all readable es \<Longrightarrow> \<exists>e. collect d es pc = Inl e"
  by (induction es arbitrary: pc) (auto simp: readable_def split: sum.splits)

lemma read_files_collect:
  "read_files d files pc =
     collect d (filter has_allowed_extension (map (Pair []) files)) pc"
proof (induction files arbitrary: pc)
  case Nil
  show ?case by simp
next
  case (Cons p files)
  obtain f r where p: "p = (f, r)" by (cases p)
  show ?case using Cons.IH
    by (cases r) (simp_all add: p has_allowed_extension_def entry_section_def)
qed

lemma keep_nil: "keep ex ([], p) = has_allowed_extension ([], p)"
  by (simp add: keep_def under_excluded_def)

lemma keep_in_dir:
  "keep ex (in_dir d e) = (d \<notin> set ex \<and> keep ex e)"
  by (auto simp: keep_def under_excluded_def has_allowed_extension_def in_dir_def)

lemma filter_keep_files:
  "filter (keep ex) (map (Pair []) files)
     = filter has_allowed_extension (map (Pair []) files)"
  by (induction files) (auto simp: keep_nil)

lemma filter_keep_excluded:
  "d \<in> set ex \<Longrightarrow> filter (keep ex) (map (in_dir d) es) = []"
  by (induction es) (auto simp: keep_in_dir)

lemma filter_keep_sub:
  "d \<notin> set ex \<Longrightarrow> filter (keep ex) (map (in_dir d) es)
     = map (in_dir d) (filter (keep ex) es)"
  by (induction es) (auto simp: keep_in_dir)

lemma walk_collect:
  "walk ex d t pc = collect d (filter (keep ex) (tree_files t)) pc"
  "walk_dirs ex d dirs pc = collect d (filter (keep ex) (subdir_files dirs)) pc"
proof (induction ex d t pc and ex d dirs pc rule: walk_walk_dirs.induct)
  case (1 ex d files dirs pc)
  show ?case
    using 1 by (simp add: collect_append read_files_collect filter_keep_files split: sum.splits)
next
  case (2 ex d pc)
  show ?case by simp
next
  case (3 ex d x sub dirs pc)
  show ?case
  proof (cases "x \<in> set ex")
    case True
    with 3 show ?thesis by (simp add: filter_keep_excluded)
  next
    case False
    with 3 show ?thesis
      by (simp add: filter_keep_sub collect_append collect_cons_dir split: sum.splits)
  qed
qed

lemma kept_files_keep: "kept_files ex t = filter (keep ex) (tree_files t)"
  unfolding kept_files_def by (rule filter_cong) (simp_all add: keep_def)

lemma read_project_files_collect:
  "read_project_files ex t =
     (case collect ''.'' (kept_files ex t) [] of
        Inl e \<Rightarrow> Inl e
      | Inr pc \<Rightarrow> Inr (str_join ''\<newline>'' pc))"
  by (simp add: read_project_files_def walk_collect kept_files_keep)





lemma not_under_excluded_nil: "\<not> under_excluded ex ([], p)"
  by (simp add: under_excluded_def)

lemma under_excluded_in_dir:
  "under_excluded ex (in_dir d e) = (d \<in> set ex \<or> under_excluded ex e)"
  by (simp add: under_excluded_def in_dir_def)

lemma filter_excl_files:
  "filter (\<lambda>e. \<not> under_excluded ex e) (map (Pair []) files)
     = map (Pair []) files"
  by (induction files) (auto simp: not_under_excluded_nil)

lemma filter_excl_excluded:
  "d \<in> set ex \<Longrightarrow>
     filter (\<lambda>e. \<not> under_excluded ex e) (map (in_dir d) es) = []"
  by (induction es) (auto simp: under_excluded_in_dir)

lemma filter_excl_sub:
  "d \<notin> set ex \<Longrightarrow>
     filter (\<lambda>e. \<not> under_excluded ex e) (map (in_dir d) es)
       = map (in_dir d) (filter (\<lambda>e. \<not> under_excluded ex e) es)"
  by (induction es) (auto simp: under_excluded_in_dir)

lemma tree_files_prune:
  "tree_files (prune ex t) = filter (\<lambda>e. \<not> under_excluded ex e) (tree_files t)"
  "subdir_files (prune_dirs ex dirs) = filter (\<lambda>e. \<not> under_excluded ex e) (subdir_files dirs)"
proof (induction ex t and ex dirs rule: prune_prune_dirs.induct)
  case (1 ex files dirs)
  then show ?case by (simp add: filter_excl_files)
next
  case (2 ex)
  show ?case by simp
next
  case (3 ex d sub dirs)
  then show ?case by (simp add: filter_excl_excluded filter_excl_sub)
qed

lemma kept_files_prune: "kept_files ex (prune ex t) = kept_files ex t"
  by (auto simp: kept_files_def tree_files_prune(1) intro: filter_cong)

text \<open>
  Claim C6. Nothing under an excluded directory, at any depth, reaches the output: the
  result is the same as on the tree with every excluded directory removed, and the files of
  that tree are exactly the files with no excluded directory on their path.
\<close>

theorem excluded_dirs_never_read:
  "read_project_files exclude_dirs tree = read_project_files exclude_dirs (prune exclude_dirs tree)
   \<and> tree_files (prune exclude_dirs tree)
       = filter (\<lambda>e. \<not> under_excluded exclude_dirs e) (tree_files tree)"
  by (simp add: read_project_files_collect kept_files_prune tree_files_prune(1))

theorem excluded_dirs_never_read_witness:
  "prune default_exclude_dirs workflow_tree =
     Directory [(''a.py'', Inr ''print(1)''), (''logo.png'', Inl (LibraryError ''UnicodeDecodeError''))]
       [(''src'', Directory [(''b.md'', Inr ''# b'')] [])]
   \<and> read_project_files default_exclude_dirs workflow_tree =
       read_project_files default_exclude_dirs
         (Directory [(''a.py'', Inr ''print(1)''), (''logo.png'', Inl (LibraryError ''UnicodeDecodeError''))]
            [(''src'', Directory [(''b.md'', Inr ''# b'')] [])])"
proof -
  have p: "prune default_exclude_dirs workflow_tree =
     Directory [(''a.py'', Inr ''print(1)''), (''logo.png'', Inl (LibraryError ''UnicodeDecodeError''))]
       [(''src'', Directory [(''b.md'', Inr ''# b'')] [])]"
    by (simp add: workflow_tree_def default_exclude_dirs_def)
  from excluded_dirs_never_read[of default_exclude_dirs workflow_tree] p
  show ?thesis by simp
qed

end
